theory Spec2Isabelle
  imports Complex_Main
begin

section \<open>Smart Playlist Curator: the tools and the chat session of agent.py\<close>

text \<open>
  The development embeds \<^verbatim>\<open>src/agent.py\<close>: the three arithmetic and keyword tools
  (\<^verbatim>\<open>calculate_playlist_duration\<close>, \<^verbatim>\<open>get_mood_music_keywords\<close>,
  \<^verbatim>\<open>suggest_song_count\<close>), the \<^verbatim>\<open>chat\<close> function with its global
  \<^verbatim>\<open>chat_history\<close>, and the command line program under
  \<^verbatim>\<open>if __name__ == "__main__"\<close>.

  Conventions of the embedding.
  \<^item> A Python \<^verbatim>\<open>str\<close> is a \<^typ>\<open>string\<close>, one \<^typ>\<open>char\<close> per code point, so
    \<^const>\<open>length\<close> is Python's \<^verbatim>\<open>len\<close>. The 8-bit \<^typ>\<open>char\<close> limits the text to
    code points below 256; the emoji of the program's fixed messages lie beyond it and
    are left out of the literals.
  \<^item> A Python \<^verbatim>\<open>int\<close> is an \<^typ>\<open>int\<close>. A finite \<^verbatim>\<open>float\<close> is a \<^typ>\<open>rat\<close> and
    the arithmetic on it is exact: no rounding, no overflow, no infinities and no NaN.
  \<^item> The agent executor, \<^verbatim>\<open>create_agent\<close>, the environment and the terminal are
    external: they are parameters of the functions that use them.
  \<^item> An exception is a value of \<open>exn\<close>; a call that may raise returns \<open>exn + 'a\<close>.
\<close>

subsection \<open>Strings and numbers as Python renders them\<close>

text \<open>\<^verbatim>\<open>str.lower()\<close> on code points below 256: A-Z and the Latin-1 capitals
  (192-222 but the multiplication sign 215) move up by 32.\<close>

definition lower_char :: "char \<Rightarrow> char" where
  "lower_char c =
     (let n = (of_char c :: nat)
      in if (65 \<le> n \<and> n \<le> 90) \<or> (192 \<le> n \<and> n \<le> 222 \<and> n \<noteq> 215)
         then char_of (n + 32) else c)"

definition lower :: "string \<Rightarrow> string" where
  "lower s = map lower_char s"

text \<open>\<^verbatim>\<open>str.isspace()\<close> on one code point below 256: tab to carriage return, the
  separators 28-31, the space, NEL (133) and the no-break space (160).\<close>

definition isspace :: "char \<Rightarrow> bool" where
  "isspace c =
     (let n = (of_char c :: nat)
      in (9 \<le> n \<and> n \<le> 13) \<or> (28 \<le> n \<and> n \<le> 32) \<or> n = 133 \<or> n = 160)"

text \<open>\<^verbatim>\<open>str.strip()\<close>: whitespace is removed at both ends.\<close>

definition strip :: "string \<Rightarrow> string" where
  "strip s = rev (dropWhile isspace (rev (dropWhile isspace s)))"

text \<open>\<^verbatim>\<open>str(n)\<close> for an integer: decimal digits, a minus sign when negative.\<close>

fun show_nat :: "nat \<Rightarrow> string" where
  "show_nat n =
     (if n < 10 then [char_of (48 + n)]
      else show_nat (n div 10) @ [char_of (48 + n mod 10)])"

declare show_nat.simps [simp del]





text \<open>\<^verbatim>\<open>d.get(key, default)\<close> on a dictionary written as its list of items.\<close>

definition dict_get :: "('k \<times> 'v) list \<Rightarrow> 'k \<Rightarrow> 'v \<Rightarrow> 'v" where
  "dict_get d k dflt = (case map_of d k of Some v \<Rightarrow> v | None \<Rightarrow> dflt)"

subsection \<open>The tools\<close>



text \<open>\<^verbatim>\<open>get_mood_music_keywords(mood: str, activity: str)\<close> and its two tables.\<close>

definition mood_mapping :: "(string \<times> string) list" where
  "mood_mapping =
     [(''happy'', ''upbeat cheerful positive feel-good''),
      (''sad'', ''melancholic emotional ballad slow''),
      (''energetic'', ''high-energy fast-paced pumped powerful''),
      (''calm'', ''relaxing peaceful ambient chill mellow''),
      (''romantic'', ''love romantic intimate soft''),
      (''angry'', ''aggressive intense heavy powerful''),
      (''focused'', ''instrumental concentration deep-focus''),
      (''nostalgic'', ''throwback classic retro memories'')]"

definition activity_mapping :: "(string \<times> string) list" where
  "activity_mapping =
     [(''workout'', ''gym training fitness motivation high-tempo''),
      (''study'', ''concentration focus instrumental background''),
      (''party'', ''dance celebration upbeat crowd-pleaser''),
      (''sleep'', ''lullaby sleep ambient soft gentle''),
      (''driving'', ''road-trip driving cruising''),
      (''cooking'', ''upbeat background feel-good casual''),
      (''meditation'', ''zen mindfulness ambient peaceful''),
      (''work'', ''productivity focus instrumental background'')]"

definition get_mood_music_keywords :: "string \<Rightarrow> string \<Rightarrow> string" where
  "get_mood_music_keywords mood0 activity0 =
     (let mood = strip (lower mood0);
          activity = strip (lower activity0);
          mood_keywords = dict_get mood_mapping mood mood;
          activity_keywords = dict_get activity_mapping activity activity
      in mood_keywords @ '' '' @ activity_keywords @ '' music songs playlist'')"


text \<open>\<^verbatim>\<open>format_playlist_output(playlist_data: str)\<close>.\<close>

definition format_playlist_output :: "string \<Rightarrow> string" where
  "format_playlist_output playlist_data = ''Formatted Playlist:\<newline>'' @ playlist_data"

subsection \<open>The agent executor, its results and its exceptions\<close>

text \<open>
  The value an executor returns is duck-typed. The code asks four things of it: is it
  \<^verbatim>\<open>None\<close>, is it a \<^verbatim>\<open>dict\<close>, has it an attribute \<^verbatim>\<open>output\<close>, and what
  is \<^verbatim>\<open>str\<close> of it. Of the value under \<^verbatim>\<open>output\<close> it asks: is it \<^verbatim>\<open>None\<close>, is
  it true, is it a \<^verbatim>\<open>str\<close>, and what is \<^verbatim>\<open>str\<close> of it. \<open>PyOther b s\<close> is any value
  that is neither \<^verbatim>\<open>None\<close> nor a \<^verbatim>\<open>str\<close>, with truth value \<open>b\<close> and rendering
  \<open>s\<close>; \<open>RObject a s\<close> is any result that is neither \<^verbatim>\<open>None\<close> nor a \<^verbatim>\<open>dict\<close>,
  with attribute \<^verbatim>\<open>output\<close> equal to \<open>v\<close> when \<open>a = Some v\<close>, no such attribute when
  \<open>a = None\<close>, and rendering \<open>s\<close>.
\<close>

datatype pyval = PyNone | PyStr string | PyOther bool string

fun truthy :: "pyval \<Rightarrow> bool" where
  "truthy PyNone = False"
| "truthy (PyStr s) = (s \<noteq> [])"
| "truthy (PyOther b s) = b"

fun is_str :: "pyval \<Rightarrow> bool" where
  "is_str (PyStr s) = True"
| "is_str v = False"

fun py_str :: "pyval \<Rightarrow> string" where
  "py_str PyNone = ''None''"
| "py_str (PyStr s) = s"
| "py_str (PyOther b s) = s"

datatype response = RNone | RDict "(string \<times> pyval) list" | RObject "pyval option" string

text \<open>
  \<open>PyException msg\<close> is an instance of \<^verbatim>\<open>Exception\<close> whose \<^verbatim>\<open>str\<close> is \<open>msg\<close>.
  \<open>KeyboardInterrupt\<close> and \<open>SystemExit\<close> derive from \<^verbatim>\<open>BaseException\<close> only: an
  \<^verbatim>\<open>except Exception\<close> clause does not catch them.
\<close>

datatype exn = PyException string | KeyboardInterrupt | SystemExit

fun is_Exception :: "exn \<Rightarrow> bool" where
  "is_Exception (PyException msg) = True"
| "is_Exception e = False"

datatype message = HumanMessage string | AIMessage string

text \<open>One call \<^verbatim>\<open>agent_executor.invoke({"input": ..., "chat_history": ...})\<close>.\<close>

type_synonym agent = "string \<Rightarrow> message list \<Rightarrow> exn + response"

text \<open>A turn of \<^verbatim>\<open>chat_history\<close> is the tuple \<^verbatim>\<open>(role, content)\<close>.\<close>

type_synonym transcript = "(string \<times> string) list"

subsection \<open>chat\<close>

text \<open>The loop under \<^verbatim>\<open># Format chat history\<close>.\<close>

fun format_history :: "transcript \<Rightarrow> message list" where
  "format_history [] = []"
| "format_history ((role, content) # rest) =
     (if role = ''human'' then HumanMessage content # format_history rest
      else if role = ''assistant'' \<and> content \<noteq> [] then AIMessage content # format_history rest
      else format_history rest)"

text \<open>The normalisation of a returned value: the \<^verbatim>\<open>if/elif/else\<close> chain after
  \<^verbatim>\<open>invoke\<close> and the check that follows it.\<close>

definition normalize_response :: "response \<Rightarrow> string" where
  "normalize_response response =
     (let output =
        (case response of
           RNone \<Rightarrow> PyStr ''No response was generated. Please try again.''
         | RDict d \<Rightarrow>
             (let output = dict_get d ''output'' (PyStr [])
              in if \<not> truthy output
                 then PyStr ''I didn't get a proper response. Could you rephrase your question?''
                 else output)
         | RObject (Some v) s \<Rightarrow> (if v \<noteq> PyNone then PyStr (py_str v) else PyStr s)
         | RObject None s \<Rightarrow> PyStr s)
      in if \<not> truthy output \<or> \<not> is_str output
         then ''I'm having trouble understanding. Could you rephrase your question?''
         else py_str output)"

text \<open>The inner \<^verbatim>\<open>try\<close> under \<^verbatim>\<open># Run agent\<close>: an \<^verbatim>\<open>Exception\<close> becomes the
  apology, any other exception leaves the block.\<close>

definition run_agent :: "agent \<Rightarrow> string \<Rightarrow> message list \<Rightarrow> exn + string" where
  "run_agent agent_executor user_input formatted_history =
     (case agent_executor user_input formatted_history of
        Inr response \<Rightarrow> Inr (normalize_response response)
      | Inl (PyException msg) \<Rightarrow>
          Inr (''I encountered an error: '' @ msg @ ''. Could you please rephrase your question?'')
      | Inl e \<Rightarrow> Inl e)"

text \<open>The statements under \<^verbatim>\<open># Update chat history\<close> and
  \<^verbatim>\<open># Keep last 20 messages\<close>.\<close>

definition update_history :: "string \<Rightarrow> string \<Rightarrow> transcript \<Rightarrow> transcript" where
  "update_history user_input output chat_history =
     (if output \<noteq> [] \<and> output \<noteq> ''No response generated''
      then chat_history @ [(''human'', user_input), (''assistant'', output)]
      else chat_history)"

definition keep_last_20 :: "transcript \<Rightarrow> transcript" where
  "keep_last_20 chat_history =
     (if length chat_history > 20 then drop (length chat_history - 20) chat_history
      else chat_history)"

text \<open>
  What a call of \<^verbatim>\<open>chat\<close> does: the value it returns or the exception it raises,
  the global \<^verbatim>\<open>chat_history\<close> afterwards, and the lines it prints itself.
\<close>

record chat_result =
  returned :: "exn + string"
  history :: transcript
  printed :: "string list"

text \<open>
  \<^verbatim>\<open>chat(user_input, agent_executor)\<close>, with the global \<^verbatim>\<open>chat_history\<close> passed in
  and \<^verbatim>\<open>create_agent()\<close> given by its outcome. The global is a list in every state of
  the program, so the test \<^verbatim>\<open>chat_history is None\<close> fails. The outer handler catches
  an \<^verbatim>\<open>Exception\<close> of \<^verbatim>\<open>create_agent\<close>; the message it prints is
  \<^verbatim>\<open>"Error in chat function: "\<close> followed by the exception's text.
  \<open>ensure_executor\<close> is the statement
  \<^verbatim>\<open>if agent_executor is None: agent_executor = create_agent()\<close>.
\<close>

definition ensure_executor :: "(exn + agent) \<Rightarrow> agent option \<Rightarrow> exn + agent" where
  "ensure_executor create_agent agent_executor =
     (case agent_executor of None \<Rightarrow> create_agent | Some a \<Rightarrow> Inr a)"

definition chat :: "(exn + agent) \<Rightarrow> string \<Rightarrow> agent option \<Rightarrow> transcript \<Rightarrow> chat_result" where
  "chat create_agent user_input agent_executor chat_history =
     (let formatted_history = format_history chat_history
      in case ensure_executor create_agent agent_executor of
           Inl (PyException msg) \<Rightarrow>
             \<lparr>returned = Inr ''I'm sorry, I encountered an error processing your request. Please try again.'',
              history = chat_history,
              printed = [''Error in chat function: '' @ msg]\<rparr>
         | Inl e \<Rightarrow> \<lparr>returned = Inl e, history = chat_history, printed = []\<rparr>
         | Inr executor \<Rightarrow>
             (case run_agent executor user_input formatted_history of
                Inl e \<Rightarrow> \<lparr>returned = Inl e, history = chat_history, printed = []\<rparr>
              | Inr output \<Rightarrow>
                  \<lparr>returned =
                     Inr (if output \<noteq> [] then output
                          else ''I'm not sure how to respond to that. Could you rephrase?''),
                   history = keep_last_20 (update_history user_input output chat_history),
                   printed = []\<rparr>))"

subsection \<open>The command line program\<close>

text \<open>
  What the program does, in order: a line it prints, the prompt of \<^verbatim>\<open>input\<close>, the
  call of \<^verbatim>\<open>create_agent\<close>, a call \<^verbatim>\<open>chat(user_input, agent_executor)\<close>.
\<close>

datatype event = Print string | Prompt string | CreateAgent | Chat string

text \<open>What \<^verbatim>\<open>input("You: ")\<close> gives: a line, or \<^verbatim>\<open>KeyboardInterrupt\<close>. The end
  of the input list is \<^verbatim>\<open>EOFError\<close>.\<close>

datatype stdin = Line string | Interrupt

text \<open>How the process ends: \<^verbatim>\<open>sys.exit(n)\<close> or the end of the script (status 0),
  or an exception nothing catches.\<close>

datatype status = Exit int | Uncaught exn

definition emit :: "event list \<Rightarrow> event list \<times> 'a \<Rightarrow> event list \<times> 'a" where
  "emit evs r = (evs @ fst r, snd r)"

definition preview :: "string \<Rightarrow> string" where
  "preview message = (if length message > 100 then take 100 message @ ''...'' else message)"

definition print_history :: "transcript \<Rightarrow> event list" where
  "print_history chat_history =
     [Print ''\<newline>--- Chat History ---''] @
     (if chat_history = [] then [Print ''No chat history yet.'']
      else map (\<lambda>(role, message). Print (role @ '': '' @ preview message)) chat_history) @
     [Print ''--- End History ---\<newline>'']"

text \<open>
  The \<^verbatim>\<open>while True\<close> loop. The executor is one object whose answers change from call to
  call: \<open>executor k\<close> is its behaviour at its \<open>k\<close>-th invocation. The loop reads the
  input list from the left and ends with it, so it is a recursion on that list.
\<close>

fun main_loop ::
  "(exn + agent) \<Rightarrow> (nat \<Rightarrow> agent) \<Rightarrow> nat \<Rightarrow> stdin list \<Rightarrow> transcript
     \<Rightarrow> event list \<times> transcript \<times> status" where
  "main_loop create_agent executor k [] chat_history =
     ([Prompt ''You: '', Print ''\<newline>\<newline>Goodbye! ''], chat_history, Exit 0)"
| "main_loop create_agent executor k (Interrupt # rest) chat_history =
     ([Prompt ''You: '', Print ''\<newline>\<newline>Goodbye! ''], chat_history, Exit 0)"
| "main_loop create_agent executor k (Line l # rest) chat_history =
     (let user_input = strip l
      in if user_input = [] then
           emit [Prompt ''You: ''] (main_loop create_agent executor k rest chat_history)
         else if lower user_input \<in> set [''quit'', ''exit'', ''q''] then
           ([Prompt ''You: '', Print ''\<newline>Goodbye! Enjoy your music! ''], chat_history, Exit 0)
         else if lower user_input = ''history'' then
           emit (Prompt ''You: '' # print_history chat_history)
             (main_loop create_agent executor k rest chat_history)
         else if lower user_input = ''clear'' then
           emit [Prompt ''You: '', Print ''\<newline> Chat history cleared!\<newline>'']
             (main_loop create_agent executor k rest [])
         else
           (let r = chat create_agent user_input (Some (executor k)) chat_history;
                evs = [Prompt ''You: '', Chat user_input] @ map Print (printed r)
            in case returned r of
                 Inr response \<Rightarrow>
                   emit (evs @ [Print (''\<newline> Playlist Curator: '' @ response @ ''\<newline>'')])
                     (main_loop create_agent executor (Suc k) rest (history r))
               | Inl KeyboardInterrupt \<Rightarrow>
                   emit (evs @ [Print ''\<newline>\<newline>Interrupted. Type 'quit' to exit.\<newline>''])
                     (main_loop create_agent executor (Suc k) rest (history r))
               | Inl (PyException msg) \<Rightarrow>
                   emit (evs @ [Print (''\<newline> Error: '' @ msg @ ''\<newline>'')])
                     (main_loop create_agent executor (Suc k) rest (history r))
               | Inl SystemExit \<Rightarrow> (evs, history r, Uncaught SystemExit)))"

text \<open>\<^verbatim>\<open>not os.getenv(name)\<close>: the variable is unset or empty.\<close>

definition missing :: "(string \<rightharpoonup> string) \<Rightarrow> string \<Rightarrow> bool" where
  "missing getenv name = (case getenv name of None \<Rightarrow> True | Some v \<Rightarrow> v = [])"

definition banner :: "event list" where
  "banner =
     [Print (replicate 70 CHR ''=''),
      Print '' Smart Playlist Curator - AI Music Assistant'',
      Print (replicate 70 CHR ''=''),
      Print ''\<newline> Loading API keys from .env file...'']"

text \<open>
  The program under \<^verbatim>\<open>if __name__ == "__main__"\<close>: the environment, the outcome of
  \<^verbatim>\<open>create_agent()\<close> and the terminal input are given; the result is what the program
  did, the final \<^verbatim>\<open>chat_history\<close> (empty when the module is loaded) and how the process
  ended.
\<close>

definition main ::
  "(string \<rightharpoonup> string) \<Rightarrow> (exn + (nat \<Rightarrow> agent)) \<Rightarrow> stdin list
     \<Rightarrow> event list \<times> transcript \<times> status" where
  "main getenv create_agent script =
     (if missing getenv ''GROQ_API_KEY'' then
        (banner @
           [Print ''\<newline>  GROQ_API_KEY not found in .env file!'',
            Print ''\<newline>Please create a .env file with:'',
            Print ''GROQ_API_KEY=gsk-your-groq-key-here'',
            Print ''TAVILY_API_KEY=tvly-your-tavily-key-here''],
         [], Exit 1)
      else if missing getenv ''TAVILY_API_KEY'' then
        (banner @
           [Print ''\<newline>  TAVILY_API_KEY not found in .env file!'',
            Print ''\<newline>Please add to your .env file:'',
            Print ''TAVILY_API_KEY=tvly-your-tavily-key-here''],
         [], Exit 1)
      else
        (let evs = banner @
               [Print '' API keys loaded successfully!'',
                Print ''\<newline> Initializing playlist curator agent...'',
                CreateAgent]
         in case create_agent of
              Inl (PyException msg) \<Rightarrow>
                (evs @ [Print (''\<newline> Failed to initialize agent: '' @ msg)], [], Exit 1)
            | Inl e \<Rightarrow> (evs, [], Uncaught e)
            | Inr executor \<Rightarrow>
                emit (evs @
                   [Print '' Agent ready!\<newline>'',
                    Print ''Chat with the Playlist Curator (type 'quit' to exit):\<newline>'',
                    Print ''Example: 'Create a 1 hour workout playlist with energetic pop music'\<newline>''])
                  (main_loop (Inr (executor 0)) executor 0 script [])))"

subsection \<open>Notions used to state the properties\<close>



text \<open>What the external calls of one \<^verbatim>\<open>chat\<close> do: \<^verbatim>\<open>create_agent()\<close> when no
  executor is passed, then \<^verbatim>\<open>invoke\<close>.\<close>

definition invocation :: "(exn + agent) \<Rightarrow> string \<Rightarrow> agent option \<Rightarrow> transcript \<Rightarrow> exn + response" where
  "invocation create_agent user_input agent_executor chat_history =
     (case ensure_executor create_agent agent_executor of
        Inl e \<Rightarrow> Inl e
      | Inr a \<Rightarrow> a user_input (format_history chat_history))"

text \<open>A transcript made of pairs: a human turn, then an assistant turn.\<close>

fun alternating :: "transcript \<Rightarrow> bool" where
  "alternating [] = True"
| "alternating [t] = False"
| "alternating ((r1, c1) # (r2, c2) # rest) =
     (r1 = ''human'' \<and> r2 = ''assistant'' \<and> alternating rest)"

text \<open>The inputs the command line program passed to \<^verbatim>\<open>chat\<close>.\<close>

fun forwarded :: "event list \<Rightarrow> string list" where
  "forwarded [] = []"
| "forwarded (Chat s # evs) = s # forwarded evs"
| "forwarded (e # evs) = forwarded evs"

definition control_tokens :: "string list" where
  "control_tokens = [''quit'', ''exit'', ''q'', ''history'', ''clear'']"

section \<open>Properties\<close>

subsection \<open>Arithmetic of the tools\<close>









subsection \<open>The keyword mapper\<close>

text \<open>
  C5. For every mood and activity string, \<^verbatim>\<open>get_mood_music_keywords\<close> lower-cases and
  trims both, looks each up in its own table, falls back to the lower-cased, trimmed input
  itself where the key is absent (each lookup on its own), and returns
  "{mood phrase} {activity phrase} music songs playlist". For known keys the mapped
  descriptors appear; for unknown strings the lower-cased, trimmed input appears verbatim.
  The last two conjuncts list the keys of the two tables.
\<close>

theorem get_mood_music_keywords_spec:
  "get_mood_music_keywords mood activity =
     (case map_of mood_mapping (strip (lower mood)) of
        Some d \<Rightarrow> d | None \<Rightarrow> strip (lower mood))
     @ '' '' @
     (case map_of activity_mapping (strip (lower activity)) of
        Some d \<Rightarrow> d | None \<Rightarrow> strip (lower activity))
     @ '' music songs playlist''
   \<and> (map_of mood_mapping (strip (lower mood)) = Some md
        \<and> map_of activity_mapping (strip (lower activity)) = Some ad
      \<longrightarrow> get_mood_music_keywords mood activity = md @ '' '' @ ad @ '' music songs playlist'')
   \<and> (strip (lower mood) \<notin> set (map fst mood_mapping)
        \<and> strip (lower activity) \<notin> set (map fst activity_mapping)
      \<longrightarrow> get_mood_music_keywords mood activity =
            strip (lower mood) @ '' '' @ strip (lower activity) @ '' music songs playlist'')
   \<and> map fst mood_mapping =
        [''happy'', ''sad'', ''energetic'', ''calm'', ''romantic'', ''angry'', ''focused'',
         ''nostalgic'']
   \<and> map fst activity_mapping =
        [''workout'', ''study'', ''party'', ''sleep'', ''driving'', ''cooking'', ''meditation'',
         ''work'']"
proof (intro conjI impI)
  show g: "get_mood_music_keywords mood activity =
     (case map_of mood_mapping (strip (lower mood)) of
        Some d \<Rightarrow> d | None \<Rightarrow> strip (lower mood))
     @ '' '' @
     (case map_of activity_mapping (strip (lower activity)) of
        Some d \<Rightarrow> d | None \<Rightarrow> strip (lower activity))
     @ '' music songs playlist''"
    by (simp add: get_mood_music_keywords_def dict_get_def Let_def)
  {
    assume "map_of mood_mapping (strip (lower mood)) = Some md
        \<and> map_of activity_mapping (strip (lower activity)) = Some ad"
    then show "get_mood_music_keywords mood activity = md @ '' '' @ ad @ '' music songs playlist''"
      unfolding g by simp
  }
  {
    assume a: "strip (lower mood) \<notin> set (map fst mood_mapping)
        \<and> strip (lower activity) \<notin> set (map fst activity_mapping)"
    then have "map_of mood_mapping (strip (lower mood)) = None"
      and "map_of activity_mapping (strip (lower activity)) = None"
      by (simp_all add: map_of_eq_None_iff)
    then show "get_mood_music_keywords mood activity =
            strip (lower mood) @ '' '' @ strip (lower activity) @ '' music songs playlist''"
      unfolding g by simp
  }
  show "map fst mood_mapping =
        [''happy'', ''sad'', ''energetic'', ''calm'', ''romantic'', ''angry'', ''focused'',
         ''nostalgic'']"
    by (simp add: mood_mapping_def)
  show "map fst activity_mapping =
        [''workout'', ''study'', ''party'', ''sleep'', ''driving'', ''cooking'', ''meditation'',
         ''work'']"
    by (simp add: activity_mapping_def)
qed

theorem get_mood_music_keywords_spec_witness:
  "get_mood_music_keywords ''  HAPPY '' ''Workout'' =
     ''upbeat cheerful positive feel-good gym training fitness motivation high-tempo music songs playlist''
   \<and> get_mood_music_keywords ''Grumpy'' '' Hiking '' = ''grumpy hiking music songs playlist''"
proof -
  have m: "map_of mood_mapping (strip (lower ''  HAPPY '')) = Some ''upbeat cheerful positive feel-good''"
    by code_simp
  have a: "map_of activity_mapping (strip (lower ''Workout'')) =
      Some ''gym training fitness motivation high-tempo''"
    by code_simp
  have m': "strip (lower ''Grumpy'') \<notin> set (map fst mood_mapping)"
    by code_simp
  have a': "strip (lower '' Hiking '') \<notin> set (map fst activity_mapping)"
    by code_simp
  have s1: "strip (lower ''Grumpy'') = ''grumpy''" by code_simp
  have s2: "strip (lower '' Hiking '') = ''hiking''" by code_simp
  from get_mood_music_keywords_spec [of "''  HAPPY ''" "''Workout''"
      "''upbeat cheerful positive feel-good''" "''gym training fitness motivation high-tempo''"] m a
  have k: "get_mood_music_keywords ''  HAPPY '' ''Workout'' =
     ''upbeat cheerful positive feel-good'' @ '' '' @ ''gym training fitness motivation high-tempo''
       @ '' music songs playlist''"
    by blast
  from get_mood_music_keywords_spec [of "''Grumpy''" "'' Hiking ''"] m' a'
  have u: "get_mood_music_keywords ''Grumpy'' '' Hiking '' =
      strip (lower ''Grumpy'') @ '' '' @ strip (lower '' Hiking '') @ '' music songs playlist''"
    by blast
  show ?thesis using k u unfolding s1 s2 by simp
qed

subsection \<open>chat\<close>

lemma ensure_executor_Some [simp]: "ensure_executor ca (Some a) = Inr a"
  by (simp add: ensure_executor_def)

lemma ensure_executor_None [simp]: "ensure_executor ca None = ca"
  by (simp add: ensure_executor_def)

lemma chat_invoked:
  assumes "ensure_executor ca ae = Inr ag"
  shows "chat ca u ae h =
    (case run_agent ag u (format_history h) of
       Inl e \<Rightarrow> \<lparr>returned = Inl e, history = h, printed = []\<rparr>
     | Inr output \<Rightarrow>
         \<lparr>returned = Inr (if output \<noteq> [] then output
             else ''I'm not sure how to respond to that. Could you rephrase?''),
          history = keep_last_20 (update_history u output h), printed = []\<rparr>)"
  using assms by (simp add: chat_def Let_def)

lemma chat_not_created:
  assumes "ensure_executor ca ae = Inl e"
  shows "chat ca u ae h =
    (if is_Exception e
     then \<lparr>returned = Inr ''I'm sorry, I encountered an error processing your request. Please try again.'',
           history = h, printed = [''Error in chat function: '' @ (case e of PyException m \<Rightarrow> m | _ \<Rightarrow> [])]\<rparr>
     else \<lparr>returned = Inl e, history = h, printed = []\<rparr>)"
  using assms by (cases e) (simp_all add: chat_def Let_def)

lemma truthy_str_nonempty: "truthy v \<Longrightarrow> is_str v \<Longrightarrow> py_str v \<noteq> []"
  by (cases v) simp_all

lemma normalize_response_nonempty: "normalize_response r \<noteq> []"
  by (simp add: normalize_response_def Let_def truthy_str_nonempty)

lemma normalize_dict_output:
  "map_of d ''output'' = Some (PyStr s) \<Longrightarrow> s \<noteq> [] \<Longrightarrow> normalize_response (RDict d) = s"
  by (simp add: normalize_response_def Let_def dict_get_def)

lemma normalize_dict_absent:
  "map_of d ''output'' = None \<Longrightarrow>
   normalize_response (RDict d) = ''I didn't get a proper response. Could you rephrase your question?''"
  by (simp add: normalize_response_def Let_def dict_get_def)

lemma normalize_dict_empty:
  "map_of d ''output'' = Some v \<Longrightarrow> \<not> truthy v \<Longrightarrow>
   normalize_response (RDict d) = ''I didn't get a proper response. Could you rephrase your question?''"
  by (simp add: normalize_response_def Let_def dict_get_def)

lemma normalize_none:
  "normalize_response RNone = ''No response was generated. Please try again.''"
  by (simp add: normalize_response_def Let_def)

lemma run_agent_cases:
  "run_agent ag u fh =
     (case ag u fh of
        Inr r \<Rightarrow> Inr (normalize_response r)
      | Inl e \<Rightarrow> (if is_Exception e
                   then Inr (''I encountered an error: '' @ (case e of PyException m \<Rightarrow> m | _ \<Rightarrow> [])
                              @ ''. Could you please rephrase your question?'')
                   else Inl e))"
  by (simp add: run_agent_def split: sum.splits exn.splits)

lemma run_agent_nonempty: "run_agent ag u fh = Inr output \<Longrightarrow> output \<noteq> []"
  by (auto simp: run_agent_def normalize_response_nonempty split: sum.splits exn.splits)


text \<open>
  C1, as the claim states it, fails in its last part: an exception of the invocation that
  is not an \<^verbatim>\<open>Exception\<close> passes both \<^verbatim>\<open>except Exception\<close> clauses. When the
  invocation raises \<^verbatim>\<open>KeyboardInterrupt\<close>, \<^verbatim>\<open>chat\<close> raises it too.
\<close>

theorem chat_interrupt_counterexample:
  "returned (chat (Inl (PyException ''unused'')) ''hello''
      (Some (\<lambda>input chat_history. Inl KeyboardInterrupt)) []) = Inl KeyboardInterrupt"
  by (simp add: chat_def run_agent_def Let_def)

text \<open>
  C1, amended. Let \<^verbatim>\<open>chat\<close> invoke an executor (the one passed, or the one
  \<^verbatim>\<open>create_agent\<close> returns). If the result is a mapping whose "output" is a non-empty
  string, that string is returned; if "output" is absent or empty (false), the fallback
  "I didn't get a proper response. Could you rephrase your question?" is returned; if the
  result is None, "No response was generated. Please try again." is returned; if the
  invocation raises an \<^verbatim>\<open>Exception\<close> with message m, the apology
  "I encountered an error: m. Could you please rephrase your question?" is returned and
  nothing is raised.
\<close>

theorem chat_normalizes:
  "ensure_executor ca ae = Inr ag \<longrightarrow>
   (ag u (format_history h) = Inr (RDict d) \<and> map_of d ''output'' = Some (PyStr s) \<and> s \<noteq> []
      \<longrightarrow> returned (chat ca u ae h) = Inr s)
   \<and> (ag u (format_history h) = Inr (RDict d)
        \<and> (map_of d ''output'' = None \<or> (\<exists>v. map_of d ''output'' = Some v \<and> \<not> truthy v))
      \<longrightarrow> returned (chat ca u ae h) =
            Inr ''I didn't get a proper response. Could you rephrase your question?'')
   \<and> (ag u (format_history h) = Inr RNone
      \<longrightarrow> returned (chat ca u ae h) = Inr ''No response was generated. Please try again.'')
   \<and> (ag u (format_history h) = Inl (PyException msg)
      \<longrightarrow> returned (chat ca u ae h) =
            Inr (''I encountered an error: '' @ msg @ ''. Could you please rephrase your question?''))"
proof (intro impI conjI)
  assume ex: "ensure_executor ca ae = Inr ag"
  {
    assume "ag u (format_history h) = Inr (RDict d) \<and> map_of d ''output'' = Some (PyStr s) \<and> s \<noteq> []"
    then show "returned (chat ca u ae h) = Inr s"
      by (simp add: chat_invoked [OF ex] run_agent_def normalize_dict_output)
  }
  {
    assume a: "ag u (format_history h) = Inr (RDict d)
        \<and> (map_of d ''output'' = None \<or> (\<exists>v. map_of d ''output'' = Some v \<and> \<not> truthy v))"
    then have "normalize_response (RDict d) =
        ''I didn't get a proper response. Could you rephrase your question?''"
      using normalize_dict_absent normalize_dict_empty by blast
    with a show "returned (chat ca u ae h) =
            Inr ''I didn't get a proper response. Could you rephrase your question?''"
      by (simp add: chat_invoked [OF ex] run_agent_def)
  }
  {
    assume "ag u (format_history h) = Inr RNone"
    then show "returned (chat ca u ae h) = Inr ''No response was generated. Please try again.''"
      by (simp add: chat_invoked [OF ex] run_agent_def normalize_none)
  }
  {
    assume "ag u (format_history h) = Inl (PyException msg)"
    then show "returned (chat ca u ae h) =
            Inr (''I encountered an error: '' @ msg @ ''. Could you please rephrase your question?'')"
      by (simp add: chat_invoked [OF ex] run_agent_def)
  }
qed

theorem chat_normalizes_witness:
  "returned (chat (Inl KeyboardInterrupt) ''hello''
      (Some (\<lambda>input chat_history. Inr (RDict [(''output'', PyStr ''X'')]))) []) = Inr ''X''
   \<and> returned (chat (Inl KeyboardInterrupt) ''hello''
      (Some (\<lambda>input chat_history. Inr (RDict []))) []) =
        Inr ''I didn't get a proper response. Could you rephrase your question?''
   \<and> returned (chat (Inl KeyboardInterrupt) ''hello''
      (Some (\<lambda>input chat_history. Inr RNone)) []) =
        Inr ''No response was generated. Please try again.''
   \<and> returned (chat (Inl KeyboardInterrupt) ''hello''
      (Some (\<lambda>input chat_history. Inl (PyException ''timeout''))) []) =
        Inr ''I encountered an error: timeout. Could you please rephrase your question?''"
proof -
  let ?ca = "Inl KeyboardInterrupt :: exn + agent"
  let ?a1 = "\<lambda>(input::string) (chat_history::message list).
                (Inr (RDict [(''output'', PyStr ''X'')]) :: exn + response)"
  let ?a2 = "\<lambda>(input::string) (chat_history::message list). (Inr (RDict []) :: exn + response)"
  let ?a3 = "\<lambda>(input::string) (chat_history::message list). (Inr RNone :: exn + response)"
  let ?a4 = "\<lambda>(input::string) (chat_history::message list).
                (Inl (PyException ''timeout'') :: exn + response)"
  have 1: "returned (chat ?ca ''hello'' (Some ?a1) []) = Inr ''X''"
    using chat_normalizes [of ?ca "Some ?a1" ?a1 "''hello''" "[]" "[(''output'', PyStr ''X'')]" "''X''"]
    by simp
  have 2: "returned (chat ?ca ''hello'' (Some ?a2) []) =
      Inr ''I didn't get a proper response. Could you rephrase your question?''"
    using chat_normalizes [of ?ca "Some ?a2" ?a2 "''hello''" "[]" "[]"]
    by simp
  have 3: "returned (chat ?ca ''hello'' (Some ?a3) []) =
      Inr ''No response was generated. Please try again.''"
    using chat_normalizes [of ?ca "Some ?a3" ?a3 "''hello''" "[]"]
    by simp
  have 4: "returned (chat ?ca ''hello'' (Some ?a4) []) =
      Inr ''I encountered an error: timeout. Could you please rephrase your question?''"
    using chat_normalizes [of ?ca "Some ?a4" ?a4 "''hello''" "[]" _ _ "''timeout''"]
    by simp
  from 1 2 3 4 show ?thesis by blast
qed

text \<open>
  C2, as the claim states it, fails: when the invocation raises \<^verbatim>\<open>KeyboardInterrupt\<close>
  (the user interrupts the blocking call), \<^verbatim>\<open>chat\<close> returns no string and raises it
  to its caller, which is why the command line loop wraps the call in
  \<^verbatim>\<open>except KeyboardInterrupt\<close>. The same holds for \<^verbatim>\<open>SystemExit\<close>, also when
  \<^verbatim>\<open>create_agent\<close> raises it.
\<close>

theorem chat_escape_counterexample:
  "\<not> (\<exists>s. returned (chat (Inl (PyException ''unused'')) ''one hour of jazz''
            (Some (\<lambda>input chat_history. Inl KeyboardInterrupt))
            [(''human'', ''hi''), (''assistant'', ''hello'')]) = Inr s)
   \<and> returned (chat (Inl (PyException ''unused'')) ''one hour of jazz''
            (Some (\<lambda>input chat_history. Inl KeyboardInterrupt))
            [(''human'', ''hi''), (''assistant'', ''hello'')]) = Inl KeyboardInterrupt
   \<and> returned (chat (Inl SystemExit) ''one hour of jazz'' None []) = Inl SystemExit"
  by (simp add: chat_def run_agent_def Let_def)

text \<open>
  C2, amended. \<^verbatim>\<open>chat\<close> returns a (non-empty) string exactly when neither
  \<^verbatim>\<open>create_agent\<close> nor the invocation raises an exception outside \<^verbatim>\<open>Exception\<close>:
  every returned value and every \<^verbatim>\<open>Exception\<close> ends in a returned string, and
  \<^verbatim>\<open>KeyboardInterrupt\<close> or \<^verbatim>\<open>SystemExit\<close> raised there is raised by \<^verbatim>\<open>chat\<close>.
\<close>

theorem chat_returns_string:
  "((\<exists>s. returned (chat ca u ae h) = Inr s \<and> s \<noteq> [])
      \<longleftrightarrow> (\<forall>e. invocation ca u ae h = Inl e \<longrightarrow> is_Exception e))
   \<and> (returned (chat ca u ae h) = Inl e
      \<longleftrightarrow> invocation ca u ae h = Inl e \<and> \<not> is_Exception e)"
proof (cases "ensure_executor ca ae")
  case (Inl x)
  then show ?thesis
    by (auto simp: chat_not_created [OF Inl] invocation_def)
next
  case (Inr ag)
  show ?thesis
  proof (cases "ag u (format_history h)")
    case (Inl x)
    then show ?thesis
      by (auto simp: chat_invoked [OF Inr] invocation_def Inr run_agent_cases)
  next
    case r: (Inr x)
    then show ?thesis
      by (simp add: chat_invoked [OF Inr] invocation_def Inr run_agent_cases normalize_response_nonempty)
  qed
qed

theorem chat_returns_string_witness:
  "(\<exists>s. returned (chat (Inl (PyException ''no key'')) ''hello'' None []) = Inr s \<and> s \<noteq> [])
   \<and> (\<exists>s. returned (chat (Inl SystemExit) ''hello''
          (Some (\<lambda>input chat_history. Inl (PyException ''timeout''))) []) = Inr s \<and> s \<noteq> [])
   \<and> (\<exists>s. returned (chat (Inl SystemExit) ''hello''
          (Some (\<lambda>input chat_history. Inr (RObject None []))) []) = Inr s \<and> s \<noteq> [])"
proof -
  have a: "\<forall>e. invocation (Inl (PyException ''no key'')) ''hello'' None [] = Inl e \<longrightarrow> is_Exception e"
    by (simp add: invocation_def)
  have b: "\<forall>e. invocation (Inl SystemExit) ''hello''
          (Some (\<lambda>input chat_history. Inl (PyException ''timeout''))) [] = Inl e \<longrightarrow> is_Exception e"
    by (simp add: invocation_def)
  have c: "\<forall>e. invocation (Inl SystemExit) ''hello''
          (Some (\<lambda>input chat_history. Inr (RObject None []))) [] = Inl e \<longrightarrow> is_Exception e"
    by (simp add: invocation_def)
  show ?thesis
    using chat_returns_string [THEN conjunct1, THEN iffD2, OF a]
      chat_returns_string [THEN conjunct1, THEN iffD2, OF b]
      chat_returns_string [THEN conjunct1, THEN iffD2, OF c]
    by blast
qed

subsection \<open>The transcript\<close>

lemma length_keep_last_20: "length (keep_last_20 xs) = min 20 (length xs)"
  by (simp add: keep_last_20_def)

lemma keep_last_20_drop: "keep_last_20 xs = drop (length xs - 20) xs"
  by (simp add: keep_last_20_def)

lemma keep_last_20_short: "length xs \<le> 20 \<Longrightarrow> keep_last_20 xs = xs"
  by (simp add: keep_last_20_def)

lemma keep_last_20_append: "keep_last_20 (keep_last_20 a @ b) = keep_last_20 (a @ b)"
proof -
  have "length a + length b - (length a - 20 + 20) + (length a - 20) = length a + length b - 20"
    by arith
  then show ?thesis by (simp add: keep_last_20_drop)
qed

lemma chat_history_cases:
  "history (chat ca u ae h) = h
   \<or> (\<exists>out. history (chat ca u ae h) = keep_last_20 (h @ [(''human'', u), (''assistant'', out)]))
   \<or> history (chat ca u ae h) = keep_last_20 h"
proof (cases "ensure_executor ca ae")
  case (Inl e)
  then show ?thesis by (simp add: chat_not_created [OF Inl])
next
  case (Inr ag)
  then show ?thesis
    by (cases "run_agent ag u (format_history h)")
      (auto simp: chat_invoked [OF Inr] update_history_def)
qed

text \<open>
  C3. A transcript of at most 20 entries has at most 20 entries after a call of
  \<^verbatim>\<open>chat\<close>, and they are the last entries, in their order, of the sequence the call
  appended to (the transcript itself, or the transcript with the human and the assistant
  turn at its end). A sequence of 25 turns is cut to its last 20. Cutting after each append
  is cutting once at the end, and what the cut keeps is always the end of the sequence.
\<close>

theorem transcript_cap:
  "(length h \<le> 20 \<longrightarrow>
      length (history (chat ca u ae h)) \<le> 20
      \<and> (\<exists>a. (a = h \<or> (\<exists>out. a = h @ [(''human'', u), (''assistant'', out)]))
              \<and> history (chat ca u ae h) = drop (length a - 20) a))
   \<and> (length xs = 25 \<longrightarrow> keep_last_20 xs = drop 5 xs \<and> length (keep_last_20 xs) = 20)
   \<and> keep_last_20 (keep_last_20 xs @ ys) = keep_last_20 (xs @ ys)
   \<and> keep_last_20 xs = drop (length xs - 20) xs"
proof (intro conjI impI)
  assume le: "length h \<le> 20"
  from chat_history_cases [of ca u ae h]
  show "length (history (chat ca u ae h)) \<le> 20"
    using le by (auto simp: length_keep_last_20)
  from chat_history_cases [of ca u ae h] keep_last_20_short [OF le]
  consider "history (chat ca u ae h) = h"
    | out where "history (chat ca u ae h) = keep_last_20 (h @ [(''human'', u), (''assistant'', out)])"
    by auto
  then show "\<exists>a. (a = h \<or> (\<exists>out. a = h @ [(''human'', u), (''assistant'', out)]))
              \<and> history (chat ca u ae h) = drop (length a - 20) a"
  proof cases
    case 1
    with le show ?thesis by auto
  next
    case 2
    then show ?thesis unfolding keep_last_20_drop by blast
  qed
next
  assume "length xs = 25"
  then show "keep_last_20 xs = drop 5 xs" by (simp add: keep_last_20_def)
next
  assume "length xs = 25"
  then show "length (keep_last_20 xs) = 20" by (simp add: length_keep_last_20)
next
  show "keep_last_20 (keep_last_20 xs @ ys) = keep_last_20 (xs @ ys)"
    by (rule keep_last_20_append)
  show "keep_last_20 xs = drop (length xs - 20) xs"
    by (rule keep_last_20_drop)
qed

theorem transcript_cap_witness:
  "length (history (chat (Inl SystemExit) ''more''
      (Some (\<lambda>input chat_history. Inr (RDict [(''output'', PyStr ''songs'')])))
      (replicate 20 (''human'', ''hi'')))) \<le> 20
   \<and> history (chat (Inl SystemExit) ''more''
      (Some (\<lambda>input chat_history. Inr (RDict [(''output'', PyStr ''songs'')])))
      (replicate 20 (''human'', ''hi''))) =
       replicate 18 (''human'', ''hi'') @ [(''human'', ''more''), (''assistant'', ''songs'')]
   \<and> keep_last_20 (map (\<lambda>i. (''human'', show_nat i)) [0..<25]) =
       map (\<lambda>i. (''human'', show_nat i)) [5..<25]"
proof -
  let ?h = "replicate 20 (''human'', ''hi'') :: transcript"
  let ?ag = "\<lambda>(input :: string) (chat_history :: message list).
      (Inr (RDict [(''output'', PyStr ''songs'')]) :: exn + response)"
  let ?xs = "map (\<lambda>i. (''human'', show_nat i)) [0..<25] :: transcript"
  have l: "length ?h \<le> 20" by simp
  have x: "length ?xs = 25" by simp
  have v: "history (chat (Inl SystemExit) ''more'' (Some ?ag) ?h) =
       replicate 18 (''human'', ''hi'') @ [(''human'', ''more''), (''assistant'', ''songs'')]"
    by (simp add: chat_def run_agent_def normalize_response_def dict_get_def Let_def
        update_history_def keep_last_20_def numeral_eq_Suc)
  have d: "drop 5 ?xs = map (\<lambda>i. (''human'', show_nat i)) [5..<25]"
    by (simp add: drop_map)
  from transcript_cap [of ?h "Inl SystemExit" "''more''" "Some ?ag" ?xs] l x
  have "length (history (chat (Inl SystemExit) ''more'' (Some ?ag) ?h)) \<le> 20"
    and "keep_last_20 ?xs = drop 5 ?xs"
    by blast+
  with v d show ?thesis by simp
qed

text \<open>
  C4. When the invocation gives the normalised output, the transcript after \<^verbatim>\<open>chat\<close>
  is the cut of the updated transcript, where the update appends the pair (human, input),
  (assistant, output) exactly when the output is not empty and is not the sentinel
  "No response generated", and changes nothing otherwise; in that other case a transcript
  within the cap is returned as it was.
\<close>

theorem chat_updates_history:
  "ensure_executor ca ae = Inr ag \<and> run_agent ag u (format_history h) = Inr output \<longrightarrow>
     history (chat ca u ae h) =
       keep_last_20 (if output \<noteq> [] \<and> output \<noteq> ''No response generated''
                     then h @ [(''human'', u), (''assistant'', output)] else h)
     \<and> (output \<noteq> [] \<and> output \<noteq> ''No response generated'' \<longrightarrow>
          update_history u output h = h @ [(''human'', u), (''assistant'', output)])
     \<and> (\<not> (output \<noteq> [] \<and> output \<noteq> ''No response generated'') \<longrightarrow>
          update_history u output h = h \<and> (length h \<le> 20 \<longrightarrow> history (chat ca u ae h) = h))"
proof (intro impI)
  assume a: "ensure_executor ca ae = Inr ag \<and> run_agent ag u (format_history h) = Inr output"
  then have ex: "ensure_executor ca ae = Inr ag"
    and ra: "run_agent ag u (format_history h) = Inr output"
    by simp_all
  have hist: "history (chat ca u ae h) = keep_last_20 (update_history u output h)"
    by (simp add: chat_invoked [OF ex] ra)
  show "history (chat ca u ae h) =
       keep_last_20 (if output \<noteq> [] \<and> output \<noteq> ''No response generated''
                     then h @ [(''human'', u), (''assistant'', output)] else h)
     \<and> (output \<noteq> [] \<and> output \<noteq> ''No response generated'' \<longrightarrow>
          update_history u output h = h @ [(''human'', u), (''assistant'', output)])
     \<and> (\<not> (output \<noteq> [] \<and> output \<noteq> ''No response generated'') \<longrightarrow>
          update_history u output h = h \<and> (length h \<le> 20 \<longrightarrow> history (chat ca u ae h) = h))"
    unfolding hist by (auto simp: update_history_def keep_last_20_short)
qed

theorem chat_updates_history_witness:
  "history (chat (Inl SystemExit) ''play jazz''
      (Some (\<lambda>input chat_history. Inr (RDict [(''output'', PyStr ''Here is your playlist'')])))
      [(''human'', ''hi''), (''assistant'', ''hello'')]) =
     [(''human'', ''hi''), (''assistant'', ''hello''),
      (''human'', ''play jazz''), (''assistant'', ''Here is your playlist'')]
   \<and> history (chat (Inl SystemExit) ''play jazz''
      (Some (\<lambda>input chat_history. Inr (RDict [(''output'', PyStr ''No response generated'')])))
      [(''human'', ''hi''), (''assistant'', ''hello'')]) =
     [(''human'', ''hi''), (''assistant'', ''hello'')]"
proof -
  let ?h = "[(''human'', ''hi''), (''assistant'', ''hello'')] :: transcript"
  let ?a1 = "\<lambda>(input :: string) (chat_history :: message list).
      (Inr (RDict [(''output'', PyStr ''Here is your playlist'')]) :: exn + response)"
  let ?a2 = "\<lambda>(input :: string) (chat_history :: message list).
      (Inr (RDict [(''output'', PyStr ''No response generated'')]) :: exn + response)"
  have r1: "ensure_executor (Inl SystemExit) (Some ?a1) = Inr ?a1
      \<and> run_agent ?a1 ''play jazz'' (format_history ?h) = Inr ''Here is your playlist''"
    by (simp add: run_agent_def normalize_response_def dict_get_def Let_def)
  have r2: "ensure_executor (Inl SystemExit) (Some ?a2) = Inr ?a2
      \<and> run_agent ?a2 ''play jazz'' (format_history ?h) = Inr ''No response generated''"
    by (simp add: run_agent_def normalize_response_def dict_get_def Let_def)
  have k: "keep_last_20 (?h @ [(''human'', ''play jazz''), (''assistant'', ''Here is your playlist'')])
      = ?h @ [(''human'', ''play jazz''), (''assistant'', ''Here is your playlist'')]"
    by (simp add: keep_last_20_def)
  from chat_updates_history [of "Inl SystemExit" "Some ?a1" ?a1 "''play jazz''" ?h
      "''Here is your playlist''"] r1
  have 1: "history (chat (Inl SystemExit) ''play jazz'' (Some ?a1) ?h) =
      keep_last_20 (?h @ [(''human'', ''play jazz''), (''assistant'', ''Here is your playlist'')])"
    by simp
  from chat_updates_history [of "Inl SystemExit" "Some ?a2" ?a2 "''play jazz''" ?h
      "''No response generated''"] r2
  have 2: "history (chat (Inl SystemExit) ''play jazz'' (Some ?a2) ?h) = ?h"
    by (simp add: keep_last_20_def)
  from 1 2 k show ?thesis by simp
qed

subsection \<open>Pairs of turns\<close>

lemma alternating_append: "alternating a \<Longrightarrow> alternating b \<Longrightarrow> alternating (a @ b)"
  by (induction a rule: alternating.induct) simp_all

lemma alternating_even: "alternating a \<Longrightarrow> even (length a)"
  by (induction a rule: alternating.induct) simp_all

lemma alternating_drop: "alternating a \<Longrightarrow> even k \<Longrightarrow> alternating (drop k a)"
proof (induction a arbitrary: k rule: alternating.induct)
  case 1
  then show ?case by simp
next
  case (2 t)
  then show ?case by simp
next
  case (3 r1 c1 r2 c2 rest)
  show ?case
  proof (cases "k = 0")
    case True
    with 3 show ?thesis by simp
  next
    case False
    with \<open>even k\<close> obtain j where k: "k = Suc (Suc j)" and "even j"
      by (cases k; cases "k - 1") auto
    with 3 show ?thesis by simp
  qed
qed

lemma alternating_keep_last_20: "alternating a \<Longrightarrow> alternating (keep_last_20 a)"
proof -
  assume a: "alternating a"
  then have "even (length a)" by (rule alternating_even)
  then have "even (length a - 20)" by simp
  with a show ?thesis unfolding keep_last_20_drop by (rule alternating_drop)
qed

lemma alternating_update_history: "alternating h \<Longrightarrow> alternating (update_history u out h)"
  by (simp add: update_history_def alternating_append)

lemma chat_alternating: "alternating h \<Longrightarrow> alternating (history (chat ca u ae h))"
proof (cases "ensure_executor ca ae")
  case (Inl e)
  assume "alternating h"
  then show ?thesis by (simp add: chat_not_created [OF Inl])
next
  case (Inr ag)
  assume "alternating h"
  then show ?thesis
    by (cases "run_agent ag u (format_history h)")
      (simp_all add: chat_invoked [OF Inr] alternating_keep_last_20 alternating_update_history)
qed

subsection \<open>The command line program\<close>

lemma fst_emit [simp]: "fst (emit evs r) = evs @ fst r"
  by (simp add: emit_def)

lemma snd_emit [simp]: "snd (emit evs r) = snd r"
  by (simp add: emit_def)

lemma forwarded_append [simp]: "forwarded (a @ b) = forwarded a @ forwarded b"
  by (induction a rule: forwarded.induct) simp_all

lemma forwarded_map_Print [simp]: "forwarded (map Print xs) = []"
  by (induction xs) simp_all

lemma forwarded_print_history [simp]: "forwarded (print_history h) = []"
proof -
  have "forwarded (map (\<lambda>(role, message). Print (role @ '': '' @ preview message)) h) = []"
    by (induction h) (simp_all add: case_prod_beta)
  then show ?thesis by (simp add: print_history_def)
qed

lemma CreateAgent_print_history [simp]: "CreateAgent \<notin> set (print_history h)"
  by (auto simp: print_history_def)

text \<open>One pass of the loop on a line, by the branch the line takes.\<close>

lemma main_loop_blank:
  "strip l = [] \<Longrightarrow>
   main_loop ca ex k (Line l # rest) h = emit [Prompt ''You: ''] (main_loop ca ex k rest h)"
  by simp

lemma lower_Nil [simp]: "lower [] = []"
  by (simp add: lower_def)

lemma lower_Nil_iff [simp]: "lower s = [] \<longleftrightarrow> s = []"
  by (simp add: lower_def)

lemma main_loop_quit:
  "lower (strip l) \<in> set [''quit'', ''exit'', ''q''] \<Longrightarrow>
   main_loop ca ex k (Line l # rest) h =
     ([Prompt ''You: '', Print ''\<newline>Goodbye! Enjoy your music! ''], h, Exit 0)"
  by (cases "strip l = []") (auto simp: Let_def)

lemma main_loop_history:
  "lower (strip l) = ''history'' \<Longrightarrow>
   main_loop ca ex k (Line l # rest) h =
     emit (Prompt ''You: '' # print_history h) (main_loop ca ex k rest h)"
  by (cases "strip l = []") (auto simp: Let_def)

lemma main_loop_clear:
  "lower (strip l) = ''clear'' \<Longrightarrow>
   main_loop ca ex k (Line l # rest) h =
     emit [Prompt ''You: '', Print ''\<newline> Chat history cleared!\<newline>'']
       (main_loop ca ex k rest [])"
  by (cases "strip l = []") (auto simp: Let_def)

lemma main_loop_chat:
  assumes "strip l \<noteq> []" and "lower (strip l) \<notin> set control_tokens"
  shows "main_loop ca ex k (Line l # rest) h =
    (let r = chat ca (strip l) (Some (ex k)) h;
         evs = [Prompt ''You: '', Chat (strip l)] @ map Print (printed r)
     in case returned r of
          Inr response \<Rightarrow>
            emit (evs @ [Print (''\<newline> Playlist Curator: '' @ response @ ''\<newline>'')])
              (main_loop ca ex (Suc k) rest (history r))
        | Inl KeyboardInterrupt \<Rightarrow>
            emit (evs @ [Print ''\<newline>\<newline>Interrupted. Type 'quit' to exit.\<newline>''])
              (main_loop ca ex (Suc k) rest (history r))
        | Inl (PyException msg) \<Rightarrow>
            emit (evs @ [Print (''\<newline> Error: '' @ msg @ ''\<newline>'')])
              (main_loop ca ex (Suc k) rest (history r))
        | Inl SystemExit \<Rightarrow> (evs, history r, Uncaught SystemExit))"
  using assms by (simp add: control_tokens_def Let_def)

lemma line_cases:
  obtains (blank) "strip l = []"
  | (quit) "lower (strip l) \<in> set [''quit'', ''exit'', ''q'']"
  | (history) "lower (strip l) = ''history''"
  | (clear) "lower (strip l) = ''clear''"
  | (chat) "strip l \<noteq> []" "lower (strip l) \<notin> set control_tokens"
  unfolding control_tokens_def by auto

declare main_loop.simps(3) [simp del]

lemma main_loop_alternating:
  "alternating h \<Longrightarrow> alternating (fst (snd (main_loop ca ex k script h)))"
proof (induction script arbitrary: k h)
  case Nil
  then show ?case by simp
next
  case (Cons x rest)
  show ?case
  proof (cases x)
    case Interrupt
    with Cons.prems show ?thesis by simp
  next
    case (Line l)
    show ?thesis
    proof (cases l rule: line_cases)
      case blank
      with Cons Line show ?thesis by (simp add: main_loop_blank)
    next
      case quit
      with Cons Line show ?thesis by (simp add: main_loop_quit)
    next
      case history
      with Cons Line show ?thesis by (simp add: main_loop_history)
    next
      case clear
      with Cons.IH [of "[]"] Line show ?thesis by (simp add: main_loop_clear)
    next
      case chat
      have "alternating (history (chat ca (strip l) (Some (ex k)) h))"
        using Cons.prems by (rule chat_alternating)
      then show ?thesis
        unfolding Line main_loop_chat [OF chat] Let_def
        by (auto simp: Cons.IH split: sum.splits exn.splits)
    qed
  qed
qed

lemma main_loop_forwarded:
  "list_all (\<lambda>s. lower s \<notin> set control_tokens) (forwarded (fst (main_loop ca ex k script h)))"
proof (induction script arbitrary: k h)
  case Nil
  then show ?case by simp
next
  case (Cons x rest)
  show ?case
  proof (cases x)
    case Interrupt
    then show ?thesis by simp
  next
    case (Line l)
    show ?thesis
    proof (cases l rule: line_cases)
      case blank
      with Cons Line show ?thesis by (simp add: main_loop_blank)
    next
      case quit
      with Cons Line show ?thesis by (simp add: main_loop_quit)
    next
      case history
      with Cons Line show ?thesis by (simp add: main_loop_history)
    next
      case clear
      with Cons Line show ?thesis by (simp add: main_loop_clear)
    next
      case chat
      show ?thesis
        unfolding Line main_loop_chat [OF chat] Let_def
        using chat(2) by (auto simp: Cons.IH split: sum.splits exn.splits)
    qed
  qed
qed

lemma main_loop_no_CreateAgent: "CreateAgent \<notin> set (fst (main_loop ca ex k script h))"
proof (induction script arbitrary: k h)
  case Nil
  then show ?case by simp
next
  case (Cons x rest)
  show ?case
  proof (cases x)
    case Interrupt
    then show ?thesis by simp
  next
    case (Line l)
    show ?thesis
    proof (cases l rule: line_cases)
      case blank
      with Cons Line show ?thesis by (simp add: main_loop_blank)
    next
      case quit
      with Cons Line show ?thesis by (simp add: main_loop_quit)
    next
      case history
      with Cons Line show ?thesis by (simp add: main_loop_history)
    next
      case clear
      with Cons Line show ?thesis by (simp add: main_loop_clear)
    next
      case chat
      show ?thesis
        unfolding Line main_loop_chat [OF chat] Let_def
        by (auto simp: Cons.IH split: sum.splits exn.splits)
    qed
  qed
qed

lemma forwarded_banner [simp]: "forwarded banner = []"
  by (simp add: banner_def)

lemma CreateAgent_banner [simp]: "CreateAgent \<notin> set banner"
  by (simp add: banner_def)

text \<open>
  C8. When \<^verbatim>\<open>GROQ_API_KEY\<close> or \<^verbatim>\<open>TAVILY_API_KEY\<close> is absent from the environment,
  the program prints the remediation lines that name the missing key and the line to put
  into the .env file, exits with status 1, and has neither called \<^verbatim>\<open>create_agent\<close> nor
  \<^verbatim>\<open>chat\<close>. With both keys set the program does call \<^verbatim>\<open>create_agent\<close>.
\<close>

theorem main_missing_key_exits:
  "(getenv ''GROQ_API_KEY'' = None \<or> getenv ''TAVILY_API_KEY'' = None \<longrightarrow>
      snd (main getenv create_agent script) = ([], Exit 1)
      \<and> CreateAgent \<notin> set (fst (main getenv create_agent script))
      \<and> forwarded (fst (main getenv create_agent script)) = []
      \<and> Print ''TAVILY_API_KEY=tvly-your-tavily-key-here''
           \<in> set (fst (main getenv create_agent script)))
   \<and> (getenv ''GROQ_API_KEY'' = None \<longrightarrow>
        fst (main getenv create_agent script) =
          banner @
          [Print ''\<newline>  GROQ_API_KEY not found in .env file!'',
           Print ''\<newline>Please create a .env file with:'',
           Print ''GROQ_API_KEY=gsk-your-groq-key-here'',
           Print ''TAVILY_API_KEY=tvly-your-tavily-key-here''])
   \<and> (\<not> missing getenv ''GROQ_API_KEY'' \<and> getenv ''TAVILY_API_KEY'' = None \<longrightarrow>
        fst (main getenv create_agent script) =
          banner @
          [Print ''\<newline>  TAVILY_API_KEY not found in .env file!'',
           Print ''\<newline>Please add to your .env file:'',
           Print ''TAVILY_API_KEY=tvly-your-tavily-key-here''])
   \<and> (\<not> missing getenv ''GROQ_API_KEY'' \<and> \<not> missing getenv ''TAVILY_API_KEY'' \<longrightarrow>
        CreateAgent \<in> set (fst (main getenv create_agent script)))"
proof (intro conjI impI)
  assume a: "getenv ''GROQ_API_KEY'' = None \<or> getenv ''TAVILY_API_KEY'' = None"
  then have m: "missing getenv ''GROQ_API_KEY'' \<or> missing getenv ''TAVILY_API_KEY''"
    by (auto simp: missing_def)
  from m show "snd (main getenv create_agent script) = ([], Exit 1)"
    by (auto simp: main_def)
  from m show "CreateAgent \<notin> set (fst (main getenv create_agent script))"
    by (auto simp: main_def)
  from m show "forwarded (fst (main getenv create_agent script)) = []"
    by (auto simp: main_def)
  from m show "Print ''TAVILY_API_KEY=tvly-your-tavily-key-here''
           \<in> set (fst (main getenv create_agent script))"
    by (auto simp: main_def)
next
  assume "getenv ''GROQ_API_KEY'' = None"
  then show "fst (main getenv create_agent script) =
          banner @
          [Print ''\<newline>  GROQ_API_KEY not found in .env file!'',
           Print ''\<newline>Please create a .env file with:'',
           Print ''GROQ_API_KEY=gsk-your-groq-key-here'',
           Print ''TAVILY_API_KEY=tvly-your-tavily-key-here'']"
    by (simp add: main_def missing_def)
next
  assume "\<not> missing getenv ''GROQ_API_KEY'' \<and> getenv ''TAVILY_API_KEY'' = None"
  then show "fst (main getenv create_agent script) =
          banner @
          [Print ''\<newline>  TAVILY_API_KEY not found in .env file!'',
           Print ''\<newline>Please add to your .env file:'',
           Print ''TAVILY_API_KEY=tvly-your-tavily-key-here'']"
    by (simp add: main_def missing_def)
next
  assume "\<not> missing getenv ''GROQ_API_KEY'' \<and> \<not> missing getenv ''TAVILY_API_KEY''"
  then show "CreateAgent \<in> set (fst (main getenv create_agent script))"
    by (cases create_agent) (auto simp: main_def Let_def split: exn.splits)
qed

theorem main_missing_key_exits_witness:
  "snd (main Map.empty (Inl SystemExit) [Line ''hello'']) = ([], Exit 1)
   \<and> CreateAgent \<notin> set (fst (main Map.empty (Inl SystemExit) [Line ''hello'']))
   \<and> snd (main [''GROQ_API_KEY'' \<mapsto> ''gsk-1''] (Inl SystemExit) []) = ([], Exit 1)
   \<and> fst (main [''GROQ_API_KEY'' \<mapsto> ''gsk-1''] (Inl SystemExit) []) =
          banner @
          [Print ''\<newline>  TAVILY_API_KEY not found in .env file!'',
           Print ''\<newline>Please add to your .env file:'',
           Print ''TAVILY_API_KEY=tvly-your-tavily-key-here'']"
proof -
  let ?e1 = "Map.empty :: string \<rightharpoonup> string"
  let ?e2 = "[''GROQ_API_KEY'' \<mapsto> ''gsk-1''] :: string \<rightharpoonup> string"
  have a: "?e1 ''GROQ_API_KEY'' = None \<or> ?e1 ''TAVILY_API_KEY'' = None" by simp
  have b: "?e2 ''GROQ_API_KEY'' = None \<or> ?e2 ''TAVILY_API_KEY'' = None" by simp
  have c: "\<not> missing ?e2 ''GROQ_API_KEY'' \<and> ?e2 ''TAVILY_API_KEY'' = None"
    by (simp add: missing_def)
  from main_missing_key_exits [of ?e1 "Inl SystemExit" "[Line ''hello'']"] a
  have 1: "snd (main ?e1 (Inl SystemExit) [Line ''hello'']) = ([], Exit 1)
     \<and> CreateAgent \<notin> set (fst (main ?e1 (Inl SystemExit) [Line ''hello'']))"
    by blast
  from main_missing_key_exits [of ?e2 "Inl SystemExit" "[]"] b c
  have 2: "snd (main ?e2 (Inl SystemExit) []) = ([], Exit 1)
     \<and> fst (main ?e2 (Inl SystemExit) []) =
          banner @
          [Print ''\<newline>  TAVILY_API_KEY not found in .env file!'',
           Print ''\<newline>Please add to your .env file:'',
           Print ''TAVILY_API_KEY=tvly-your-tavily-key-here'']"
    by blast
  from 1 2 show ?thesis by blast
qed

text \<open>
  C9. No input the command line loop passes to \<^verbatim>\<open>chat\<close> is, lower-cased, one of
  quit, exit, q, history, clear. A line that is quit, exit or q after trimming and
  lower-casing ends the loop: the rest of the input is not read and the transcript stays.
  A line that is history prints the transcript, each entry as "role: text" with a text
  longer than 100 characters cut to its first 100 followed by "...", and the loop goes on
  with the same transcript. A line that is clear makes the loop go on with the empty
  transcript.
\<close>

theorem control_tokens_not_forwarded:
  "list_all (\<lambda>s. lower s \<notin> set control_tokens)
     (forwarded (fst (main_loop create_agent executor k script chat_history)))
   \<and> list_all (\<lambda>s. lower s \<notin> set control_tokens)
     (forwarded (fst (main getenv create_executor script)))
   \<and> (lower (strip l) \<in> set [''quit'', ''exit'', ''q''] \<longrightarrow>
        main_loop create_agent executor k (Line l # rest) chat_history =
          ([Prompt ''You: '', Print ''\<newline>Goodbye! Enjoy your music! ''], chat_history, Exit 0))
   \<and> (lower (strip l) = ''history'' \<longrightarrow>
        main_loop create_agent executor k (Line l # rest) chat_history =
          emit (Prompt ''You: '' # print_history chat_history)
            (main_loop create_agent executor k rest chat_history))
   \<and> print_history chat_history =
        [Print ''\<newline>--- Chat History ---''] @
        (if chat_history = [] then [Print ''No chat history yet.'']
         else map (\<lambda>(role, message).
                Print (role @ '': '' @
                  (if length message > 100 then take 100 message @ ''...'' else message)))
              chat_history) @
        [Print ''--- End History ---\<newline>'']
   \<and> (lower (strip l) = ''clear'' \<longrightarrow>
        main_loop create_agent executor k (Line l # rest) chat_history =
          emit [Prompt ''You: '', Print ''\<newline> Chat history cleared!\<newline>'']
            (main_loop create_agent executor k rest []))"
proof (intro conjI impI)
  show "list_all (\<lambda>s. lower s \<notin> set control_tokens)
     (forwarded (fst (main_loop create_agent executor k script chat_history)))"
    by (rule main_loop_forwarded)
  show "list_all (\<lambda>s. lower s \<notin> set control_tokens)
     (forwarded (fst (main getenv create_executor script)))"
    by (cases create_executor)
      (auto simp: main_def Let_def main_loop_forwarded split: exn.splits)
  show "print_history chat_history =
        [Print ''\<newline>--- Chat History ---''] @
        (if chat_history = [] then [Print ''No chat history yet.'']
         else map (\<lambda>(role, message).
                Print (role @ '': '' @
                  (if length message > 100 then take 100 message @ ''...'' else message)))
              chat_history) @
        [Print ''--- End History ---\<newline>'']"
    by (simp add: print_history_def preview_def)
qed (simp_all only: main_loop_quit main_loop_history main_loop_clear)

theorem control_tokens_not_forwarded_witness:
  "main_loop (Inl SystemExit) (\<lambda>k input chat_history. Inr RNone) 0
      [Line '' Quit '', Line ''never read''] [(''human'', ''hi''), (''assistant'', ''hello'')] =
     ([Prompt ''You: '', Print ''\<newline>Goodbye! Enjoy your music! ''],
      [(''human'', ''hi''), (''assistant'', ''hello'')], Exit 0)
   \<and> main_loop (Inl SystemExit) (\<lambda>k input chat_history. Inr RNone) 0
      [Line ''HISTORY'', Line ''Clear''] [(''human'', ''hi''), (''assistant'', replicate 101 CHR ''a'')] =
     ([Prompt ''You: '', Print ''\<newline>--- Chat History ---'', Print ''human: hi'',
       Print (''assistant: '' @ replicate 100 CHR ''a'' @ ''...''),
       Print ''--- End History ---\<newline>'',
       Prompt ''You: '', Print ''\<newline> Chat history cleared!\<newline>'',
       Prompt ''You: '', Print ''\<newline>\<newline>Goodbye! ''],
      [], Exit 0)"
proof -
  let ?ca = "Inl SystemExit :: exn + agent"
  let ?ex = "\<lambda>(k :: nat) (input :: string) (chat_history :: message list). (Inr RNone :: exn + response)"
  let ?h1 = "[(''human'', ''hi''), (''assistant'', ''hello'')] :: transcript"
  let ?h2 = "[(''human'', ''hi''), (''assistant'', replicate 101 CHR ''a'')] :: transcript"
  have q: "lower (strip '' Quit '') \<in> set [''quit'', ''exit'', ''q'']"
    by code_simp
  have hi: "lower (strip ''HISTORY'') = ''history''"
    by code_simp
  have cl: "lower (strip ''Clear'') = ''clear''"
    by code_simp
  from control_tokens_not_forwarded [of ?ca ?ex 0 _ ?h1 _ _ "'' Quit ''" "[Line ''never read'']"] q
  have 1: "main_loop ?ca ?ex 0 [Line '' Quit '', Line ''never read''] ?h1 =
     ([Prompt ''You: '', Print ''\<newline>Goodbye! Enjoy your music! ''], ?h1, Exit 0)"
    by blast
  from control_tokens_not_forwarded [of ?ca ?ex 0 _ ?h2 _ _ "''HISTORY''" "[Line ''Clear'']"] hi
  have 2: "main_loop ?ca ?ex 0 [Line ''HISTORY'', Line ''Clear''] ?h2 =
          emit (Prompt ''You: '' # print_history ?h2) (main_loop ?ca ?ex 0 [Line ''Clear''] ?h2)"
    by blast
  from control_tokens_not_forwarded [of ?ca ?ex 0 _ ?h2 _ _ "''Clear''" "[]"] cl
  have 3: "main_loop ?ca ?ex 0 [Line ''Clear''] ?h2 =
          emit [Prompt ''You: '', Print ''\<newline> Chat history cleared!\<newline>'']
            (main_loop ?ca ?ex 0 [] [])"
    by blast
  have 4: "print_history ?h2 =
      [Print ''\<newline>--- Chat History ---'', Print ''human: hi'',
       Print (''assistant: '' @ replicate 100 CHR ''a'' @ ''...''),
       Print ''--- End History ---\<newline>'']"
    by (simp add: print_history_def preview_def numeral_eq_Suc)
  show ?thesis
    unfolding 1 2 3 4 by (simp add: emit_def)
qed

text \<open>
  C10. The transcript the program starts with is empty, and after any input (any sequence
  of chat exchanges, clear and history commands) it has even length and consists of pairs
  (human, text), (assistant, text). The property is kept by \<^verbatim>\<open>chat\<close>, by the cut to
  the last 20 entries and by the loop from any transcript that has it.
\<close>

theorem transcript_alternates:
  "alternating (fst (snd (main getenv create_executor script)))
   \<and> even (length (fst (snd (main getenv create_executor script))))
   \<and> alternating (fst (snd (main_loop create_agent executor k script [])))
   \<and> even (length (fst (snd (main_loop create_agent executor k script []))))
   \<and> (alternating chat_history \<longrightarrow>
        alternating (history (chat create_agent user_input agent_executor chat_history))
        \<and> even (length (history (chat create_agent user_input agent_executor chat_history)))
        \<and> alternating (keep_last_20 chat_history)
        \<and> alternating (fst (snd (main_loop create_agent executor k script chat_history))))"
proof -
  have l: "alternating (fst (snd (main_loop ca ex j script [])))" for ca ex j
    by (rule main_loop_alternating) simp
  have m: "alternating (fst (snd (main getenv create_executor script)))"
    by (cases create_executor) (auto simp: main_def Let_def l split: exn.splits)
  show ?thesis
    using l m
    by (auto simp: alternating_even chat_alternating main_loop_alternating
        alternating_keep_last_20)
qed

theorem transcript_alternates_witness:
  "alternating (history (chat (Inl SystemExit) ''play jazz''
      (Some (\<lambda>input chat_history. Inr (RDict [(''output'', PyStr ''Here it is'')])))
      [(''human'', ''hi''), (''assistant'', ''hello'')]))
   \<and> history (chat (Inl SystemExit) ''play jazz''
      (Some (\<lambda>input chat_history. Inr (RDict [(''output'', PyStr ''Here it is'')])))
      [(''human'', ''hi''), (''assistant'', ''hello'')]) =
     [(''human'', ''hi''), (''assistant'', ''hello''),
      (''human'', ''play jazz''), (''assistant'', ''Here it is'')]"
proof -
  let ?h = "[(''human'', ''hi''), (''assistant'', ''hello'')] :: transcript"
  let ?ag = "\<lambda>(input :: string) (chat_history :: message list).
      (Inr (RDict [(''output'', PyStr ''Here it is'')]) :: exn + response)"
  have a: "alternating ?h" by simp
  from transcript_alternates [of _ _ _ "Inl SystemExit" _ _ ?h "''play jazz''" "Some ?ag"] a
  have 1: "alternating (history (chat (Inl SystemExit) ''play jazz'' (Some ?ag) ?h))"
    by blast
  have 2: "history (chat (Inl SystemExit) ''play jazz'' (Some ?ag) ?h) =
     [(''human'', ''hi''), (''assistant'', ''hello''),
      (''human'', ''play jazz''), (''assistant'', ''Here it is'')]"
    by (simp add: chat_def run_agent_def normalize_response_def dict_get_def Let_def
        update_history_def keep_last_20_def)
  from 1 2 show ?thesis by blast
qed

end
